theory Spec2Isabelle
  imports Main
begin

section \<open>The platform the construct runs on\<close>

text \<open>
  \<^verbatim>\<open>NextjsSite.ts\<close> calls Node's \<^verbatim>\<open>path.join\<close> and \<^verbatim>\<open>fs.readFileSync\<close>.
  Paths are POSIX paths. \<^verbatim>\<open>path.join\<close> glues its non-empty arguments with a slash and
  normalises the result: empty and \<^verbatim>\<open>.\<close> segments are dropped, \<^verbatim>\<open>..\<close> removes the segment
  before it, a leading and a trailing slash are kept.
\<close>

fun split_sep :: "string \<Rightarrow> string list" where
  "split_sep [] = [[]]"
| "split_sep (c # cs) =
     (if c = CHR ''/'' then [] # split_sep cs
      else (case split_sep cs of [] \<Rightarrow> [[c]] | s # ss \<Rightarrow> (c # s) # ss))"

fun join_sep :: "string list \<Rightarrow> string" where
  "join_sep [] = []"
| "join_sep [s] = s"
| "join_sep (s # t # ss) = s @ ''/'' @ join_sep (t # ss)"

text \<open>The accumulator \<open>res\<close> holds the segments kept so far, the last one first.\<close>

fun normalizeString :: "bool \<Rightarrow> string list \<Rightarrow> string list \<Rightarrow> string list" where
  "normalizeString allowAboveRoot res [] = rev res"
| "normalizeString allowAboveRoot res (seg # segs) =
     (if seg = [] \<or> seg = ''.'' then normalizeString allowAboveRoot res segs
      else if seg = ''..'' then
        (case res of
           [] \<Rightarrow> normalizeString allowAboveRoot (if allowAboveRoot then [''..''] else []) segs
         | r # rs \<Rightarrow>
             if r \<noteq> ''..'' then normalizeString allowAboveRoot rs segs
             else normalizeString allowAboveRoot
                    (if allowAboveRoot then ''..'' # res else res) segs)
      else normalizeString allowAboveRoot (seg # res) segs)"

definition path_normalize :: "string \<Rightarrow> string" where
  "path_normalize p =
     (if p = [] then ''.''
      else
        (let isAbsolute = (hd p = CHR ''/'');
             trailingSeparator = (last p = CHR ''/'');
             q = join_sep (normalizeString (\<not> isAbsolute) [] (split_sep p))
         in if q = [] then (if isAbsolute then ''/'' else if trailingSeparator then ''./'' else ''.'')
            else (if isAbsolute then ''/'' else []) @ q @ (if trailingSeparator then ''/'' else [])))"

definition path_join :: "string list \<Rightarrow> string" where
  "path_join args =
     (let parts = filter (\<lambda>a. a \<noteq> []) args
      in if parts = [] then ''.'' else path_normalize (join_sep parts))"

text \<open>
  The file system is a map from paths to file contents. \<^verbatim>\<open>fs.readFileSync\<close> raises
  \<^verbatim>\<open>ENOENT\<close> for a path that holds no file; \<^verbatim>\<open>toString\<close> of the buffer read is its text.
\<close>

type_synonym file_system = "string \<rightharpoonup> string"

datatype error =
    ENOENT string
  | InvalidSize string

definition readFileSync :: "file_system \<Rightarrow> string \<Rightarrow> error + string" where
  "readFileSync fs filePath =
     (case fs filePath of None \<Rightarrow> Inl (ENOENT filePath) | Some contents \<Rightarrow> Inr contents)"

section \<open>Sizes\<close>

text \<open>
  A memory size is a number of megabytes or a size string (\<^verbatim>\<open>number | Size\<close>). A size
  string is turned into a size by the helper \<^verbatim>\<open>toCdkSize\<close> of \<^verbatim>\<open>util/size.js\<close>, which is
  not part of this file: the helper is a parameter of every function that reaches it, and
  nothing is assumed about the strings it accepts or the error it raises.
\<close>

datatype memory_size = Num int | Str string

datatype cdk_size = Mebibytes nat

fun toMebibytes :: "cdk_size \<Rightarrow> nat" where
  "toMebibytes (Mebibytes n) = n"

type_synonym size_helper = "string \<Rightarrow> error + cdk_size"

section \<open>Resources\<close>

text \<open>
  Values the framework only resolves at deployment are tokens. Resources created in the
  site's scope are kept in creation order; a resource is referred to by its position.
\<close>

datatype token =
    Literal string
  | BucketName
  | BucketArnForObjects string
  | StackRegion
  | QueueUrl nat
  | FunctionArn nat
  | FunctionUrlDomain nat
  | AssetBucketName string
  | AssetObjectKey string
  | SigningFunctionCurrentVersion

datatype lambda_code = FromInline string | FromAsset string

record s3_location =
  bucketName :: token
  objectKey :: token
  objectVersion :: "token option"

record code_config =
  s3Location :: "s3_location option"
  inlineCode :: "string option"

text \<open>
  \<^verbatim>\<open>Code.bind\<close>: inline code carries its text, an asset carries the bucket and key the
  directory is uploaded to.
\<close>

fun code_bind :: "lambda_code \<Rightarrow> code_config" where
  "code_bind (FromInline src) = \<lparr>s3Location = None, inlineCode = Some src\<rparr>"
| "code_bind (FromAsset dir) =
     \<lparr>s3Location = Some \<lparr>bucketName = AssetBucketName dir, objectKey = AssetObjectKey dir,
                           objectVersion = None\<rparr>,
      inlineCode = None\<rparr>"

text \<open>The code property of the underlying \<^verbatim>\<open>CfnFunction\<close>.\<close>

record cfn_code =
  zipFile :: "string option"
  s3Bucket :: "token option"
  s3Key :: "token option"
  s3ObjectVersion :: "token option"

definition cfnCodeOf :: "lambda_code \<Rightarrow> cfn_code" where
  "cfnCodeOf c =
     (let codeConfig = code_bind c
      in \<lparr>zipFile = inlineCode codeConfig,
          s3Bucket = map_option bucketName (s3Location codeConfig),
          s3Key = map_option objectKey (s3Location codeConfig),
          s3ObjectVersion = Option.bind (s3Location codeConfig) objectVersion\<rparr>)"

datatype runtime = NODEJS_18_X
datatype architecture = ARM_64 | X86_64
datatype removal_policy = DESTROY | RETAIN
datatype retention_days = THREE_DAYS
datatype function_url_auth_type = AWS_IAM | NONE

record policy_statement =
  actions :: "string list"
  resources :: "token list"

record event_source =
  es_queue :: nat
  es_batchSize :: nat

record cdk_function =
  fn_id :: string
  fn_description :: string
  fn_handler :: string
  fn_code :: cfn_code
  fn_runtime :: runtime
  fn_memorySize :: "int option"
  fn_timeout :: nat
  fn_architecture :: "architecture option"
  fn_removalPolicy :: "removal_policy option"
  fn_logRetention :: "retention_days option"
  fn_environment :: "string \<rightharpoonup> token"
  fn_initialPolicy :: "policy_statement list"
  fn_vpc :: "string option"
  fn_vpcSubnets :: "string option"
  fn_eventSources :: "event_source list"
  fn_urlAuthType :: "function_url_auth_type option"

record queue =
  q_id :: string
  q_fifo :: bool
  q_receiveMessageWaitTime :: nat

text \<open>
  The server function handle (\<^verbatim>\<open>SsrFunction\<close> or \<^verbatim>\<open>EdgeFunction\<close>, both outside this
  file): its execution role and its environment.
\<close>

record server_function =
  role :: string
  sf_environment :: "string \<rightharpoonup> token"

definition addEnvironment :: "string \<Rightarrow> token \<Rightarrow> server_function \<Rightarrow> server_function" where
  "addEnvironment k v f = f\<lparr>sf_environment := (sf_environment f)(k \<mapsto> v)\<rparr>"

section \<open>Cache behaviors and distributions\<close>

datatype viewer_protocol_policy = REDIRECT_TO_HTTPS | HTTPS_ONLY | ALLOW_ALL_PROTOCOLS
datatype allowed_methods = ALLOW_ALL | ALLOW_GET_HEAD | ALLOW_GET_HEAD_OPTIONS
datatype cached_methods = CACHE_GET_HEAD | CACHE_GET_HEAD_OPTIONS
datatype event_type = ORIGIN_REQUEST | ORIGIN_RESPONSE | VIEWER_REQUEST | VIEWER_RESPONSE
datatype origin = HttpOrigin token | OtherOrigin string
datatype header_behavior = HeadersNone | AllowList "string list"

record cache_policy =
  headerBehavior :: header_behavior

record edge_lambda =
  includeBody :: bool
  eventType :: event_type
  functionVersion :: token

record behavior_options =
  viewerProtocolPolicy :: viewer_protocol_policy
  origin :: origin
  allowedMethods :: allowed_methods
  cachedMethods :: cached_methods
  compress :: bool
  cachePolicy :: cache_policy
  responseHeadersPolicy :: "string option"
  edgeLambdas :: "edge_lambda list"

record distribution =
  d_customDomain :: "string option"
  defaultRootObject :: string
  defaultBehavior :: behavior_options
  additionalBehaviors :: "string \<rightharpoonup> behavior_options"

section \<open>Site configuration and state\<close>

record image_optimization =
  memorySize :: "memory_size option"

record revalidation_props =
  vpc :: "string option"
  vpcSubnets :: "string option"

record distribution_props =
  dp_defaultRootObject :: "string option"
  dp_additionalBehaviors :: "(string \<rightharpoonup> behavior_options) option"

record regional_props =
  enableServerUrlIamAuth :: "bool option"

record cdk_props =
  cdk_revalidation :: "revalidation_props option"
  cdk_serverCachePolicy :: "cache_policy option"
  cdk_distribution :: "distribution_props option"
  cdk_responseHeadersPolicy :: "string option"

record nextjs_site_props =
  path :: string
  basePath :: "string option"
  imageOptimization :: "image_optimization option"
  customDomain :: "string option"
  regional :: "regional_props option"
  cdk :: "cdk_props option"

text \<open>A deferred callback is the closure pushed on \<^verbatim>\<open>deferredTaskCallbacks\<close>, with what it captures.\<close>

datatype deferred_task =
    CreateRevalidation
  | UpdateImageFunctionCode nat string

text \<open>
  The site: its props, what the base class \<^verbatim>\<open>SsrSite\<close> holds for it (the server function
  handles and the default behaviors it builds), and the resources created so far.
\<close>

record site =
  props :: nextjs_site_props
  serverLambdaForRegional :: "server_function option"
  serverLambdaForEdge :: "server_function option"
  defaultBehaviorForRegional :: behavior_options
  defaultBehaviorForEdge :: behavior_options
  queues :: "queue list"
  cdkFunctions :: "cdk_function list"
  sendMessageGrants :: "(nat \<times> string option) list"
  signingFunctionPermissions :: "policy_statement list"
  deferredTaskCallbacks :: "deferred_task list"

section \<open>Revalidation\<close>

text \<open>
  \<^verbatim>\<open>this.serverLambdaForRegional || this.serverLambdaForEdge\<close>: the regional handle if there
  is one, else the edge handle.
\<close>

definition revalidationServer :: "site \<Rightarrow> server_function option" where
  "revalidationServer s =
     (case serverLambdaForRegional s of Some f \<Rightarrow> Some f | None \<Rightarrow> serverLambdaForEdge s)"

text \<open>
  \<^verbatim>\<open>server?.addEnvironment(k, v)\<close> changes the handle \<open>server\<close> refers to, which is the one
  the site holds; with no handle the call is skipped.
\<close>

definition serverAddEnvironment :: "string \<Rightarrow> token \<Rightarrow> site \<Rightarrow> site" where
  "serverAddEnvironment k v s =
     (case serverLambdaForRegional s of
        Some f \<Rightarrow> s\<lparr>serverLambdaForRegional := Some (addEnvironment k v f)\<rparr>
      | None \<Rightarrow>
          (case serverLambdaForEdge s of
             Some f \<Rightarrow> s\<lparr>serverLambdaForEdge := Some (addEnvironment k v f)\<rparr>
           | None \<Rightarrow> s))"

text \<open>
  \<^verbatim>\<open>queue.grantSendMessages(server?.role!)\<close>: the grantee is the role of the handle, and is
  absent exactly when the handle is; the assertion \<^verbatim>\<open>!\<close> has no effect at run time. The
  grant is recorded with the queue and the grantee it was called with.
\<close>

definition grantSendMessages :: "nat \<Rightarrow> string option \<Rightarrow> site \<Rightarrow> site" where
  "grantSendMessages q grantee s = s\<lparr>sendMessageGrants := sendMessageGrants s @ [(q, grantee)]\<rparr>"

definition createRevalidation :: "site \<Rightarrow> site" where
  "createRevalidation s =
     (if serverLambdaForRegional s = None \<and> serverLambdaForEdge s = None then s
      else
        (let revalidation = Option.bind (cdk (props s)) cdk_revalidation;
             queue = length (queues s);
             s1 = s\<lparr>queues := queues s @
                    [\<lparr>q_id = ''RevalidationQueue'', q_fifo = True, q_receiveMessageWaitTime = 20\<rparr>]\<rparr>;
             consumer =
               \<lparr>fn_id = ''RevalidationFunction'',
                fn_description = ''Next.js revalidator'',
                fn_handler = ''index.handler'',
                fn_code = cfnCodeOf (FromAsset
                   (path_join [path (props s), ''.open-next'', ''revalidation-function''])),
                fn_runtime = NODEJS_18_X,
                fn_memorySize = None,
                fn_timeout = 30,
                fn_architecture = None,
                fn_removalPolicy = None,
                fn_logRetention = None,
                fn_environment = Map.empty,
                fn_initialPolicy = [],
                fn_vpc = Option.bind revalidation vpc,
                fn_vpcSubnets = Option.bind revalidation vpcSubnets,
                fn_eventSources = [],
                fn_urlAuthType = None\<rparr>;
             s2 = s1\<lparr>cdkFunctions := cdkFunctions s1 @
                    [consumer\<lparr>fn_eventSources := [\<lparr>es_queue = queue, es_batchSize = 5\<rparr>]\<rparr>]\<rparr>;
             server = revalidationServer s2;
             s3 = serverAddEnvironment ''REVALIDATION_QUEUE_URL'' (QueueUrl queue) s2;
             s4 = serverAddEnvironment ''REVALIDATION_QUEUE_REGION'' StackRegion s3
         in grantSendMessages queue (map_option role server) s4))"

text \<open>The constructor registers the revalidation step to run after the build.\<close>

definition registerCreateRevalidation :: "site \<Rightarrow> site" where
  "registerCreateRevalidation s =
     s\<lparr>deferredTaskCallbacks := deferredTaskCallbacks s @ [CreateRevalidation]\<rparr>"

section \<open>Image optimization function\<close>

text \<open>
  The \<^verbatim>\<open>memorySize\<close> expression of \<^verbatim>\<open>createImageOptimizationFunction\<close>: a missing, zero or
  empty value is falsy and gives 1536; a string goes through \<^verbatim>\<open>toCdkSize\<close>; a number is
  taken as it is.
\<close>

definition imageMemorySize ::
  "size_helper \<Rightarrow> image_optimization option \<Rightarrow> error + int" where
  "imageMemorySize toCdkSize imageOpt =
     (case Option.bind imageOpt memorySize of
        None \<Rightarrow> Inr 1536
      | Some (Num n) \<Rightarrow> if n = 0 then Inr 1536 else Inr n
      | Some (Str sz) \<Rightarrow>
          if sz = [] then Inr 1536
          else (case toCdkSize sz of Inl e \<Rightarrow> Inl e | Inr c \<Rightarrow> Inr (int (toMebibytes c))))"

text \<open>The default the doc comment of \<^verbatim>\<open>memorySize\<close> announces (\<^verbatim>\<open>@default 1024 MB\<close>).\<close>

definition documentedDefaultMemorySize :: int where
  "documentedDefaultMemorySize = 1024"

definition placeholderCode :: lambda_code where
  "placeholderCode = FromInline ''export function handler() {}''"

definition createImageOptimizationFunction ::
  "size_helper \<Rightarrow> site \<Rightarrow> error + nat \<times> site" where
  "createImageOptimizationFunction toCdkSize s =
     (case imageMemorySize toCdkSize (imageOptimization (props s)) of
        Inl e \<Rightarrow> Inl e
      | Inr m \<Rightarrow>
          (let fn = length (cdkFunctions s);
               f = \<lparr>fn_id = ''ImageFunction'',
                    fn_description = ''Next.js image optimizer'',
                    fn_handler = ''index.handler'',
                    fn_code = cfnCodeOf placeholderCode,
                    fn_runtime = NODEJS_18_X,
                    fn_memorySize = Some m,
                    fn_timeout = 25,
                    fn_architecture = Some ARM_64,
                    fn_removalPolicy = Some DESTROY,
                    fn_logRetention = Some THREE_DAYS,
                    fn_environment =
                      [''BUCKET_NAME'' \<mapsto> BucketName, ''BUCKET_KEY_PREFIX'' \<mapsto> Literal ''_assets''],
                    fn_initialPolicy =
                      [\<lparr>actions = [''s3:GetObject''], resources = [BucketArnForObjects ''*'']\<rparr>],
                    fn_vpc = None,
                    fn_vpcSubnets = None,
                    fn_eventSources = [],
                    fn_urlAuthType = None\<rparr>
           in Inr (fn, s\<lparr>cdkFunctions := cdkFunctions s @ [f],
                          deferredTaskCallbacks := deferredTaskCallbacks s @
                            [UpdateImageFunctionCode fn (path (props s))]\<rparr>)))"

text \<open>
  The deferred callback: it writes the bucket, key and version of the built bundle into the
  code property of the function it captured. A position that holds no function cannot come
  from \<^verbatim>\<open>createImageOptimizationFunction\<close>; the state is then left as it is.
\<close>

definition updateImageFunctionCode :: "nat \<Rightarrow> string \<Rightarrow> site \<Rightarrow> site" where
  "updateImageFunctionCode fn sitePath s =
     (if fn < length (cdkFunctions s) then
        (let code = FromAsset (path_join [sitePath, ''.open-next/image-optimization-function'']);
             codeConfig = code_bind code;
             cfnFunction = cdkFunctions s ! fn
         in s\<lparr>cdkFunctions := (cdkFunctions s)
               [fn := cfnFunction\<lparr>fn_code :=
                  \<lparr>zipFile = None,
                   s3Bucket = map_option bucketName (s3Location codeConfig),
                   s3Key = map_option objectKey (s3Location codeConfig),
                   s3ObjectVersion = Option.bind (s3Location codeConfig) objectVersion\<rparr>\<rparr>]\<rparr>)
      else s)"

fun runDeferredTask :: "deferred_task \<Rightarrow> site \<Rightarrow> site" where
  "runDeferredTask CreateRevalidation s = createRevalidation s"
| "runDeferredTask (UpdateImageFunctionCode fn sitePath) s = updateImageFunctionCode fn sitePath s"

section \<open>Cache policy and behaviors\<close>

text \<open>
  Modelled from the spec: \<^verbatim>\<open>useServerBehaviorCachePolicy\<close> of the base class \<^verbatim>\<open>SsrSite\<close> is
  missing. The spec gives the cache policy for server-routed behaviors as parameterized by an
  allow-list of headers: the policy allow-lists the headers it is given.
\<close>

definition SsrSite_useServerBehaviorCachePolicy :: "string list \<Rightarrow> cache_policy" where
  "SsrSite_useServerBehaviorCachePolicy allowedHeaders =
     \<lparr>headerBehavior = AllowList allowedHeaders\<rparr>"

definition useServerBehaviorCachePolicy :: cache_policy where
  "useServerBehaviorCachePolicy =
     SsrSite_useServerBehaviorCachePolicy
       [''accept'', ''rsc'', ''next-router-prefetch'', ''next-router-state-tree'', ''next-url'']"

definition enableIamAuth :: "nextjs_site_props \<Rightarrow> bool" where
  "enableIamAuth p = (Option.bind (regional p) enableServerUrlIamAuth = Some True)"

definition addFunctionUrl :: "nat \<Rightarrow> function_url_auth_type \<Rightarrow> site \<Rightarrow> site" where
  "addFunctionUrl fn authType s =
     (if fn < length (cdkFunctions s) then
        s\<lparr>cdkFunctions := (cdkFunctions s)[fn := (cdkFunctions s ! fn)\<lparr>fn_urlAuthType := Some authType\<rparr>]\<rparr>
      else s)"

definition buildImageBehavior ::
  "size_helper \<Rightarrow> site \<Rightarrow> error + behavior_options \<times> site" where
  "buildImageBehavior toCdkSize s =
     (case createImageOptimizationFunction toCdkSize s of
        Inl e \<Rightarrow> Inl e
      | Inr (imageFn, s1) \<Rightarrow>
          (let p = props s;
               s2 = addFunctionUrl imageFn (if enableIamAuth p then AWS_IAM else NONE) s1;
               policy = (case Option.bind (cdk p) cdk_serverCachePolicy of
                           Some userPolicy \<Rightarrow> userPolicy
                         | None \<Rightarrow> useServerBehaviorCachePolicy);
               s3 = (if enableIamAuth p then
                       s2\<lparr>signingFunctionPermissions := signingFunctionPermissions s2 @
                            [\<lparr>actions = [''lambda:InvokeFunctionUrl''],
                              resources = [FunctionArn imageFn]\<rparr>]\<rparr>
                     else s2)
           in Inr (\<lparr>viewerProtocolPolicy = REDIRECT_TO_HTTPS,
                    origin = HttpOrigin (FunctionUrlDomain imageFn),
                    allowedMethods = ALLOW_ALL,
                    cachedMethods = CACHE_GET_HEAD_OPTIONS,
                    compress = True,
                    cachePolicy = policy,
                    responseHeadersPolicy = Option.bind (cdk p) cdk_responseHeadersPolicy,
                    edgeLambdas =
                      (if enableIamAuth p then
                         [\<lparr>includeBody = True, eventType = ORIGIN_REQUEST,
                           functionVersion = SigningFunctionCurrentVersion\<rparr>]
                       else [])\<rparr>, s3)))"

section \<open>Distributions\<close>

text \<open>\<^verbatim>\<open>pathPattern\<close>: an absent base path defaults to the empty string.\<close>

definition pathPattern :: "string option \<Rightarrow> string \<Rightarrow> string" where
  "pathPattern basePathArg pattern =
     (let basePath = (case basePathArg of None \<Rightarrow> [] | Some b \<Rightarrow> b)
      in if basePath \<noteq> [] \<and> length basePath > 0 then basePath @ pattern else pattern)"

text \<open>\<^verbatim>\<open>cdk?.distribution || {}\<close>\<close>

definition cfDistributionProps :: "nextjs_site_props \<Rightarrow> distribution_props" where
  "cfDistributionProps p =
     (case Option.bind (cdk p) cdk_distribution of
        None \<Rightarrow> \<lparr>dp_defaultRootObject = None, dp_additionalBehaviors = None\<rparr>
      | Some d \<Rightarrow> d)"

definition userAdditionalBehaviors :: "distribution_props \<Rightarrow> (string \<rightharpoonup> behavior_options)" where
  "userAdditionalBehaviors d = (case dp_additionalBehaviors d of None \<Rightarrow> Map.empty | Some m \<Rightarrow> m)"

definition createCloudFrontDistributionForRegional ::
  "size_helper \<Rightarrow> site \<Rightarrow> error + distribution \<times> site" where
  "createCloudFrontDistributionForRegional toCdkSize s =
     (let p = props s;
          basePath = (case basePath p of None \<Rightarrow> [] | Some b \<Rightarrow> b);
          cfDistribution = cfDistributionProps p;
          serverBehavior = defaultBehaviorForRegional s;
          normalizedPath = pathPattern (Some basePath)
      in case buildImageBehavior toCdkSize s of
           Inl e \<Rightarrow> Inl e
         | Inr (imageBehavior, s') \<Rightarrow>
             Inr (\<lparr>d_customDomain = customDomain p,
                   defaultRootObject =
                     (case dp_defaultRootObject cfDistribution of None \<Rightarrow> [] | Some r \<Rightarrow> r),
                   defaultBehavior = serverBehavior,
                   additionalBehaviors =
                     [normalizedPath ''/api/*'' \<mapsto> serverBehavior,
                      normalizedPath ''_next/data/*'' \<mapsto> serverBehavior,
                      normalizedPath ''_next/image*'' \<mapsto> imageBehavior]
                     ++ userAdditionalBehaviors cfDistribution\<rparr>, s'))"

definition createCloudFrontDistributionForEdge ::
  "size_helper \<Rightarrow> site \<Rightarrow> error + distribution \<times> site" where
  "createCloudFrontDistributionForEdge toCdkSize s =
     (let p = props s;
          cfDistribution = cfDistributionProps p;
          serverBehavior = defaultBehaviorForEdge s
      in case buildImageBehavior toCdkSize s of
           Inl e \<Rightarrow> Inl e
         | Inr (imageBehavior, s') \<Rightarrow>
             Inr (\<lparr>d_customDomain = customDomain p,
                   defaultRootObject =
                     (case dp_defaultRootObject cfDistribution of None \<Rightarrow> [] | Some r \<Rightarrow> r),
                   defaultBehavior = serverBehavior,
                   additionalBehaviors =
                     [''api/*'' \<mapsto> serverBehavior,
                      ''_next/data/*'' \<mapsto> serverBehavior,
                      ''_next/image*'' \<mapsto> imageBehavior]
                     ++ userAdditionalBehaviors cfDistribution\<rparr>, s'))"

section \<open>Build identifier\<close>

text \<open>
  \<^verbatim>\<open>generateBuildId\<close> reads \<^verbatim>\<open>.next/BUILD_ID\<close> under the site path. It has no handler
  of its own: what \<^verbatim>\<open>readFileSync\<close> raises is what the caller sees.
\<close>

definition generateBuildId :: "file_system \<Rightarrow> site \<Rightarrow> error + string" where
  "generateBuildId fs s =
     (let filePath = path_join [path (props s), ''.next/BUILD_ID'']
      in readFileSync fs filePath)"

section \<open>Observations and a sample site\<close>

text \<open>The memory size of the image function that \<^verbatim>\<open>createImageOptimizationFunction\<close> creates.\<close>

definition imageFunctionMemory ::
  "size_helper \<Rightarrow> site \<Rightarrow> error + int option" where
  "imageFunctionMemory toCdkSize s =
     (case createImageOptimizationFunction toCdkSize s of
        Inl e \<Rightarrow> Inl e
      | Inr (fn, s') \<Rightarrow> Inr (fn_memorySize (cdkFunctions s' ! fn)))"

definition withMemorySize :: "memory_size \<Rightarrow> site \<Rightarrow> site" where
  "withMemorySize m s = s\<lparr>props := (props s)\<lparr>imageOptimization := Some \<lparr>memorySize = Some m\<rparr>\<rparr>\<rparr>"

definition sampleServerBehavior :: behavior_options where
  "sampleServerBehavior =
     \<lparr>viewerProtocolPolicy = REDIRECT_TO_HTTPS,
      origin = OtherOrigin ''server'',
      allowedMethods = ALLOW_ALL,
      cachedMethods = CACHE_GET_HEAD_OPTIONS,
      compress = True,
      cachePolicy = useServerBehaviorCachePolicy,
      responseHeadersPolicy = None,
      edgeLambdas = []\<rparr>"

definition sampleSite :: site where
  "sampleSite =
     \<lparr>props = \<lparr>path = ''my-next-app/'', basePath = Some ''/docs'', imageOptimization = None,
               customDomain = None, regional = None, cdk = None\<rparr>,
      serverLambdaForRegional = Some \<lparr>role = ''ServerFunctionRole'', sf_environment = Map.empty\<rparr>,
      serverLambdaForEdge = None,
      defaultBehaviorForRegional = sampleServerBehavior,
      defaultBehaviorForEdge = sampleServerBehavior,
      queues = [],
      cdkFunctions = [],
      sendMessageGrants = [],
      signingFunctionPermissions = [],
      deferredTaskCallbacks = []\<rparr>"

text \<open>
  A size helper for the sample site: it reads the size string of the doc comment of
  \<^verbatim>\<open>memorySize\<close> and \<^verbatim>\<open>"0 MB"\<close>, and rejects every other string.
\<close>

definition sampleToCdkSize :: size_helper where
  "sampleToCdkSize sz =
     (if sz = ''512 MB'' then Inr (Mebibytes 512)
      else if sz = ''0 MB'' then Inr (Mebibytes 0)
      else Inl (InvalidSize sz))"

section \<open>Auxiliary facts\<close>

lemma guard_revalidationServer:
  "(serverLambdaForRegional s = None \<and> serverLambdaForEdge s = None) = (revalidationServer s = None)"
  by (simp add: revalidationServer_def split: option.splits)

lemma revalidationServer_serverAddEnvironment [simp]:
  "revalidationServer (serverAddEnvironment k v s) =
     map_option (addEnvironment k v) (revalidationServer s)"
  by (simp add: revalidationServer_def serverAddEnvironment_def split: option.splits)

lemma serverAddEnvironment_resources [simp]:
  "queues (serverAddEnvironment k v s) = queues s"
  "cdkFunctions (serverAddEnvironment k v s) = cdkFunctions s"
  "sendMessageGrants (serverAddEnvironment k v s) = sendMessageGrants s"
  by (simp_all add: serverAddEnvironment_def split: option.splits)

lemma grantSendMessages_resources [simp]:
  "queues (grantSendMessages q g s) = queues s"
  "cdkFunctions (grantSendMessages q g s) = cdkFunctions s"
  "sendMessageGrants (grantSendMessages q g s) = sendMessageGrants s @ [(q, g)]"
  "revalidationServer (grantSendMessages q g s) = revalidationServer s"
  by (simp_all add: grantSendMessages_def revalidationServer_def split: option.splits)

lemma revalidationServer_new_resources:
  "revalidationServer (s\<lparr>queues := q, cdkFunctions := c\<rparr>) = revalidationServer s"
  by (simp add: revalidationServer_def split: option.splits)

lemma createRevalidation_skipped:
  "revalidationServer s = None \<Longrightarrow> createRevalidation s = s"
  by (simp add: createRevalidation_def guard_revalidationServer)

lemma createRevalidation_grant:
  assumes "revalidationServer s = Some f"
  shows "sendMessageGrants (createRevalidation s) =
           sendMessageGrants s @ [(length (queues s), Some (role f))]"
proof -
  from assms have "\<not> (serverLambdaForRegional s = None \<and> serverLambdaForEdge s = None)"
    by (simp add: guard_revalidationServer)
  then show ?thesis using assms
    by (simp add: createRevalidation_def Let_def revalidationServer_new_resources)
qed

lemma pathPattern_append: "pathPattern (Some b) pat = b @ pat"
  by (simp add: pathPattern_def)

lemma buildImageBehavior_Inl:
  "buildImageBehavior toCdkSize s = Inl e \<longleftrightarrow>
     imageMemorySize toCdkSize (imageOptimization (props s)) = Inl e"
  by (cases "imageMemorySize toCdkSize (imageOptimization (props s))")
     (auto simp add: buildImageBehavior_def Let_def createImageOptimizationFunction_def)

text \<open>
  The deferred callback at any state that holds a function at the captured position: the
  code of that function becomes the pointer to the built bundle.
\<close>

lemma updateImageFunctionCode_code:
  assumes "fn < length (cdkFunctions t)"
  shows "fn_code (cdkFunctions (updateImageFunctionCode fn sitePath t) ! fn) =
           \<lparr>zipFile = None,
            s3Bucket = Some (AssetBucketName
              (path_join [sitePath, ''.open-next/image-optimization-function''])),
            s3Key = Some (AssetObjectKey
              (path_join [sitePath, ''.open-next/image-optimization-function''])),
            s3ObjectVersion = None\<rparr>"
  using assms by (simp add: updateImageFunctionCode_def Let_def)

lemma updateImageFunctionCode_frame:
  assumes "fn < length (cdkFunctions t)"
  shows "(cdkFunctions (updateImageFunctionCode fn sitePath t) ! fn)
            \<lparr>fn_code := fn_code (cdkFunctions t ! fn)\<rparr> = cdkFunctions t ! fn"
    and "(updateImageFunctionCode fn sitePath t)
            \<lparr>cdkFunctions := (cdkFunctions (updateImageFunctionCode fn sitePath t))
               [fn := cdkFunctions t ! fn]\<rparr> = t"
  using assms by (simp_all add: updateImageFunctionCode_def Let_def)

section \<open>Routing table of the regional distribution\<close>

text \<open>
  Claim C1. When the user supplies no additional behaviors, the regional distribution is
  built unless the image memory size is invalid, and its routing table then has exactly the
  three patterns \<open>p/api/*\<close>, \<open>p_next/data/*\<close> and \<open>p_next/image*\<close>, where \<open>p\<close> is the base
  path (empty when absent), besides the default behavior of the server. With an absent or
  empty base path the patterns are the bare ones.
\<close>

theorem regional_routing_table:
  assumes "dp_additionalBehaviors (cfDistributionProps (props s)) = None"
  shows "case createCloudFrontDistributionForRegional toCdkSize s of
           Inl e \<Rightarrow> imageMemorySize toCdkSize (imageOptimization (props s)) = Inl e
         | Inr (d, s') \<Rightarrow>
             dom (additionalBehaviors d) =
               {(case basePath (props s) of None \<Rightarrow> [] | Some b \<Rightarrow> b) @ ''/api/*'',
                (case basePath (props s) of None \<Rightarrow> [] | Some b \<Rightarrow> b) @ ''_next/data/*'',
                (case basePath (props s) of None \<Rightarrow> [] | Some b \<Rightarrow> b) @ ''_next/image*''}
           \<and> card (dom (additionalBehaviors d)) = 3
           \<and> defaultBehavior d = defaultBehaviorForRegional s
           \<and> (basePath (props s) = None \<or> basePath (props s) = Some [] \<longrightarrow>
                dom (additionalBehaviors d) = {''/api/*'', ''_next/data/*'', ''_next/image*''})"
proof (cases "buildImageBehavior toCdkSize s")
  case (Inl e)
  then show ?thesis
    by (simp add: createCloudFrontDistributionForRegional_def Let_def
          buildImageBehavior_Inl [symmetric])
next
  case (Inr r)
  obtain b s' where r: "r = (b, s')" by (cases r)
  show ?thesis using Inr r assms
    by (auto simp add: createCloudFrontDistributionForRegional_def Let_def pathPattern_append
          userAdditionalBehaviors_def)
qed

theorem regional_routing_table_witness:
  "dom (additionalBehaviors (fst (projr
        (createCloudFrontDistributionForRegional sampleToCdkSize sampleSite)))) =
     {''/docs/api/*'', ''/docs_next/data/*'', ''/docs_next/image*''}
   \<and> dom (additionalBehaviors (fst (projr (createCloudFrontDistributionForRegional sampleToCdkSize
        (sampleSite\<lparr>props := (props sampleSite)\<lparr>basePath := None\<rparr>\<rparr>))))) =
     {''/api/*'', ''_next/data/*'', ''_next/image*''}"
  using regional_routing_table [where s = sampleSite and toCdkSize = sampleToCdkSize]
    regional_routing_table
      [where s = "sampleSite\<lparr>props := (props sampleSite)\<lparr>basePath := None\<rparr>\<rparr>"
         and toCdkSize = sampleToCdkSize]
  by (simp add: sampleSite_def cfDistributionProps_def imageMemorySize_def
        split: sum.splits prod.splits)

section \<open>Routing table of the edge distribution\<close>

text \<open>
  Claim C2. On the sample site, which has no user behaviors, the edge distribution is built
  and its routing table has the keys \<open>api/*\<close>, \<open>_next/data/*\<close> and \<open>_next/image*\<close>; the key
  \<open>/api/*\<close>, which the regional distribution has when there is no base path, is not among
  them.
\<close>

theorem edge_api_pattern_without_slash:
  "\<not> isl (createCloudFrontDistributionForEdge sampleToCdkSize sampleSite)
   \<and> ''/api/*'' \<notin> dom (additionalBehaviors
        (fst (projr (createCloudFrontDistributionForEdge sampleToCdkSize sampleSite))))
   \<and> ''api/*'' \<in> dom (additionalBehaviors
        (fst (projr (createCloudFrontDistributionForEdge sampleToCdkSize sampleSite))))
   \<and> ''/api/*'' \<in> dom (additionalBehaviors
        (fst (projr (createCloudFrontDistributionForRegional sampleToCdkSize
           (sampleSite\<lparr>props := (props sampleSite)\<lparr>basePath := None\<rparr>\<rparr>)))))"
  by (simp add: createCloudFrontDistributionForEdge_def createCloudFrontDistributionForRegional_def
        buildImageBehavior_def pathPattern_def
        createImageOptimizationFunction_def Let_def cfDistributionProps_def imageMemorySize_def
        userAdditionalBehaviors_def sampleSite_def)

section \<open>Revalidation without a server function\<close>

text \<open>
  Claim C3. On a site that has neither a regional nor an edge server function,
  \<^verbatim>\<open>createRevalidation\<close> returns the site as it was: no queue, no consumer function, no
  grant and no environment entry is added.
\<close>

theorem createRevalidation_without_server:
  assumes "serverLambdaForRegional s = None" and "serverLambdaForEdge s = None"
  shows "createRevalidation s = s"
  using assms by (simp add: createRevalidation_def)

theorem createRevalidation_without_server_witness:
  "createRevalidation (sampleSite\<lparr>serverLambdaForRegional := None\<rparr>) =
     sampleSite\<lparr>serverLambdaForRegional := None\<rparr>
   \<and> queues (createRevalidation (sampleSite\<lparr>serverLambdaForRegional := None\<rparr>)) = []"
  using createRevalidation_without_server [of "sampleSite\<lparr>serverLambdaForRegional := None\<rparr>"]
  by (simp add: sampleSite_def)

section \<open>Revalidation with a server function\<close>

text \<open>
  Claim C4. When a server function \<open>f\<close> exists, \<^verbatim>\<open>createRevalidation\<close> adds one queue, which
  is first-in-first-out with a receive wait of 20 seconds, adds one consumer function whose
  only event source is that queue with batch size 5, grants the role of \<open>f\<close> the right to
  send messages to the queue, and sets \<^verbatim>\<open>REVALIDATION_QUEUE_URL\<close> and
  \<^verbatim>\<open>REVALIDATION_QUEUE_REGION\<close> in the environment of \<open>f\<close>.
\<close>

theorem createRevalidation_with_server:
  assumes "revalidationServer s = Some f"
  shows "queues (createRevalidation s) =
           queues s @ [\<lparr>q_id = ''RevalidationQueue'', q_fifo = True, q_receiveMessageWaitTime = 20\<rparr>]
       \<and> (\<exists>consumer. cdkFunctions (createRevalidation s) = cdkFunctions s @ [consumer]
             \<and> fn_id consumer = ''RevalidationFunction''
             \<and> fn_eventSources consumer = [\<lparr>es_queue = length (queues s), es_batchSize = 5\<rparr>])
       \<and> sendMessageGrants (createRevalidation s) =
           sendMessageGrants s @ [(length (queues s), Some (role f))]
       \<and> revalidationServer (createRevalidation s) =
           Some (f\<lparr>sf_environment := (sf_environment f)
                  (''REVALIDATION_QUEUE_URL'' \<mapsto> QueueUrl (length (queues s)),
                   ''REVALIDATION_QUEUE_REGION'' \<mapsto> StackRegion)\<rparr>)"
proof -
  from assms have "\<not> (serverLambdaForRegional s = None \<and> serverLambdaForEdge s = None)"
    by (simp add: guard_revalidationServer)
  then show ?thesis using assms
    by (simp add: createRevalidation_def Let_def addEnvironment_def
          revalidationServer_new_resources)
qed

theorem createRevalidation_with_server_witness:
  "queues (createRevalidation sampleSite) =
     [\<lparr>q_id = ''RevalidationQueue'', q_fifo = True, q_receiveMessageWaitTime = 20\<rparr>]
   \<and> sendMessageGrants (createRevalidation sampleSite) = [(0, Some ''ServerFunctionRole'')]
   \<and> map_option (\<lambda>f. sf_environment f ''REVALIDATION_QUEUE_URL'')
        (revalidationServer (createRevalidation sampleSite)) = Some (Some (QueueUrl 0))
   \<and> map_option (\<lambda>f. sf_environment f ''REVALIDATION_QUEUE_REGION'')
        (revalidationServer (createRevalidation sampleSite)) = Some (Some StackRegion)"
  using createRevalidation_with_server
    [of sampleSite "\<lparr>role = ''ServerFunctionRole'', sf_environment = Map.empty\<rparr>"]
  by (simp add: sampleSite_def revalidationServer_def)

section \<open>Memory size as a number and as a size string\<close>

text \<open>
  Claim C5. Whatever the size helper is, the number 0 as \<^verbatim>\<open>memorySize\<close> is falsy and
  gives the image function the default of 1536 MB, while the number 512 gives 512 MB and the
  size string \<^verbatim>\<open>"0 MB"\<close> gives what the helper reads from it. With the sample helper, which
  reads zero megabytes from \<^verbatim>\<open>"0 MB"\<close>, the string gives 0 MB and the number 0 gives 1536 MB.
\<close>

theorem memory_size_zero_divergence:
  "imageFunctionMemory toCdkSize (withMemorySize (Num 0) s) = Inr (Some 1536)
   \<and> imageFunctionMemory toCdkSize (withMemorySize (Num 512) s) = Inr (Some 512)
   \<and> imageFunctionMemory toCdkSize (withMemorySize (Str ''0 MB'') s) =
       (case toCdkSize ''0 MB'' of Inl e \<Rightarrow> Inl e | Inr c \<Rightarrow> Inr (Some (int (toMebibytes c))))
   \<and> imageFunctionMemory sampleToCdkSize (withMemorySize (Str ''0 MB'') sampleSite) = Inr (Some 0)
   \<and> imageFunctionMemory sampleToCdkSize (withMemorySize (Num 0) sampleSite) = Inr (Some 1536)"
  by (simp add: imageFunctionMemory_def withMemorySize_def createImageOptimizationFunction_def
        imageMemorySize_def Let_def sampleToCdkSize_def split: sum.splits)

section \<open>A missing build identifier\<close>

text \<open>
  Claim C6. When no file exists at \<^verbatim>\<open>.next/BUILD_ID\<close> under the site path,
  \<^verbatim>\<open>generateBuildId\<close> fails with the read error of that path; its result is not the empty
  string.
\<close>

theorem generateBuildId_missing_file:
  assumes "fs (path_join [path (props s), ''.next/BUILD_ID'']) = None"
  shows "generateBuildId fs s = Inl (ENOENT (path_join [path (props s), ''.next/BUILD_ID'']))
         \<and> generateBuildId fs s \<noteq> Inr []"
  using assms by (simp add: generateBuildId_def readFileSync_def)

theorem generateBuildId_missing_file_witness:
  "generateBuildId Map.empty sampleSite = Inl (ENOENT ''my-next-app/.next/BUILD_ID'')
   \<and> generateBuildId Map.empty sampleSite \<noteq> Inr []"
  using generateBuildId_missing_file [of Map.empty sampleSite]
  by (simp add: sampleSite_def path_join_def path_normalize_def)

section \<open>Headers of the server cache policy\<close>

text \<open>
  Claim C7. The policy of \<^verbatim>\<open>useServerBehaviorCachePolicy\<close> allow-lists the five headers
  \<^verbatim>\<open>accept\<close>, \<^verbatim>\<open>rsc\<close>, \<^verbatim>\<open>next-router-prefetch\<close>, \<^verbatim>\<open>next-router-state-tree\<close> and
  \<^verbatim>\<open>next-url\<close> and nothing else. The image behavior uses that policy, unless the caller
  supplies \<^verbatim>\<open>cdk.serverCachePolicy\<close>, which is then used instead.
\<close>

theorem server_cache_policy_headers:
  assumes "buildImageBehavior toCdkSize s = Inr (b, s')"
  shows "headerBehavior useServerBehaviorCachePolicy =
           AllowList [''accept'', ''rsc'', ''next-router-prefetch'', ''next-router-state-tree'',
                      ''next-url'']
       \<and> cachePolicy b =
           (case Option.bind (cdk (props s)) cdk_serverCachePolicy of
              None \<Rightarrow> useServerBehaviorCachePolicy
            | Some userPolicy \<Rightarrow> userPolicy)"
  using assms
  by (cases "imageMemorySize toCdkSize (imageOptimization (props s))")
     (auto simp add: useServerBehaviorCachePolicy_def SsrSite_useServerBehaviorCachePolicy_def
        buildImageBehavior_def createImageOptimizationFunction_def Let_def split: option.splits)

theorem server_cache_policy_headers_witness:
  "buildImageBehavior sampleToCdkSize sampleSite =
     Inr (fst (projr (buildImageBehavior sampleToCdkSize sampleSite)),
          snd (projr (buildImageBehavior sampleToCdkSize sampleSite)))
   \<and> headerBehavior (cachePolicy (fst (projr (buildImageBehavior sampleToCdkSize sampleSite)))) =
       AllowList [''accept'', ''rsc'', ''next-router-prefetch'', ''next-router-state-tree'',
                  ''next-url'']"
proof -
  have built: "buildImageBehavior sampleToCdkSize sampleSite =
     Inr (fst (projr (buildImageBehavior sampleToCdkSize sampleSite)),
          snd (projr (buildImageBehavior sampleToCdkSize sampleSite)))"
    by (simp add: buildImageBehavior_def createImageOptimizationFunction_def imageMemorySize_def
          Let_def sampleSite_def)
  have "cdk (props sampleSite) = None" by (simp add: sampleSite_def)
  with server_cache_policy_headers [OF built] built show ?thesis by simp
qed

section \<open>Placeholder code and the deferred code swap\<close>

text \<open>
  Claim C8. \<^verbatim>\<open>createImageOptimizationFunction\<close> adds the image function at once, with the
  inline no-op handler as its code, and registers a deferred callback. Whenever that callback
  runs later, at any state that still holds the function, it sets the code of the function
  to the bucket, key and version of the built bundle, which differs from the placeholder;
  the function is otherwise the same, and nothing else of the site changes. In particular,
  after \<^verbatim>\<open>buildImageBehavior\<close> has given the function its URL, the function still has the
  placeholder code, the callback is the last one registered, and running it swaps the code.
\<close>

theorem image_function_code_swap:
  assumes "createImageOptimizationFunction toCdkSize s = Inr (fn, s1)"
      and "fn < length (cdkFunctions t)"
  shows "let task = UpdateImageFunctionCode fn (path (props s));
             bundle = path_join [path (props s), ''.open-next/image-optimization-function''];
             placeholder = \<lparr>zipFile = Some ''export function handler() {}'', s3Bucket = None,
                            s3Key = None, s3ObjectVersion = None\<rparr>;
             built = \<lparr>zipFile = None, s3Bucket = Some (AssetBucketName bundle),
                      s3Key = Some (AssetObjectKey bundle), s3ObjectVersion = None\<rparr>
         in cdkFunctions s1 = cdkFunctions s @ [cdkFunctions s1 ! fn]
          \<and> fn_code (cdkFunctions s1 ! fn) = placeholder
          \<and> deferredTaskCallbacks s1 = deferredTaskCallbacks s @ [task]
          \<and> built \<noteq> placeholder
          \<and> fn_code (cdkFunctions (runDeferredTask task t) ! fn) = built
          \<and> (cdkFunctions (runDeferredTask task t) ! fn)\<lparr>fn_code := fn_code (cdkFunctions t ! fn)\<rparr>
              = cdkFunctions t ! fn
          \<and> (runDeferredTask task t)
               \<lparr>cdkFunctions := (cdkFunctions (runDeferredTask task t))[fn := cdkFunctions t ! fn]\<rparr>
              = t
          \<and> (\<exists>b s3. buildImageBehavior toCdkSize s = Inr (b, s3)
                \<and> fn < length (cdkFunctions s3)
                \<and> fn_urlAuthType (cdkFunctions s3 ! fn) =
                    Some (if enableIamAuth (props s) then AWS_IAM else NONE)
                \<and> fn_code (cdkFunctions s3 ! fn) = placeholder
                \<and> last (deferredTaskCallbacks s3) = task
                \<and> fn_code (cdkFunctions (runDeferredTask task s3) ! fn) = built)"
proof (cases "imageMemorySize toCdkSize (imageOptimization (props s))")
  case (Inl e)
  with assms show ?thesis by (simp add: createImageOptimizationFunction_def)
next
  case (Inr m)
  from assms(1) Inr have fn: "fn = length (cdkFunctions s)"
    by (auto simp add: createImageOptimizationFunction_def Let_def)
  have creation: "cdkFunctions s1 = cdkFunctions s @ [cdkFunctions s1 ! fn]
      \<and> fn_code (cdkFunctions s1 ! fn) =
          \<lparr>zipFile = Some ''export function handler() {}'', s3Bucket = None,
                            s3Key = None, s3ObjectVersion = None\<rparr>
      \<and> deferredTaskCallbacks s1 =
          deferredTaskCallbacks s @ [UpdateImageFunctionCode fn (path (props s))]"
    using assms(1) Inr
    by (auto simp add: createImageOptimizationFunction_def Let_def cfnCodeOf_def placeholderCode_def)
  have flow: "\<exists>b s3. buildImageBehavior toCdkSize s = Inr (b, s3)
      \<and> fn < length (cdkFunctions s3)
      \<and> fn_urlAuthType (cdkFunctions s3 ! fn) =
          Some (if enableIamAuth (props s) then AWS_IAM else NONE)
      \<and> fn_code (cdkFunctions s3 ! fn) =
          \<lparr>zipFile = Some ''export function handler() {}'', s3Bucket = None,
                            s3Key = None, s3ObjectVersion = None\<rparr>
      \<and> last (deferredTaskCallbacks s3) = UpdateImageFunctionCode fn (path (props s))
      \<and> fn_code (cdkFunctions (runDeferredTask (UpdateImageFunctionCode fn (path (props s))) s3) ! fn) =
          \<lparr>zipFile = None,
           s3Bucket = Some (AssetBucketName
              (path_join [path (props s), ''.open-next/image-optimization-function''])),
           s3Key = Some (AssetObjectKey
              (path_join [path (props s), ''.open-next/image-optimization-function''])),
           s3ObjectVersion = None\<rparr>"
    using Inr fn
    by (simp add: buildImageBehavior_def createImageOptimizationFunction_def Let_def
          addFunctionUrl_def updateImageFunctionCode_def cfnCodeOf_def placeholderCode_def)
  show ?thesis
    using creation flow updateImageFunctionCode_code [OF assms(2)]
      updateImageFunctionCode_frame [OF assms(2)]
    by (simp add: Let_def)
qed

theorem image_function_code_swap_witness:
  "createImageOptimizationFunction sampleToCdkSize sampleSite =
      Inr (0, snd (projr (createImageOptimizationFunction sampleToCdkSize sampleSite)))
   \<and> 0 < length (cdkFunctions (snd (projr (buildImageBehavior sampleToCdkSize sampleSite))))
   \<and> fn_urlAuthType (cdkFunctions (snd (projr (buildImageBehavior sampleToCdkSize sampleSite))) ! 0)
       = Some NONE
   \<and> fn_code (cdkFunctions (snd (projr (buildImageBehavior sampleToCdkSize sampleSite))) ! 0) =
     \<lparr>zipFile = Some ''export function handler() {}'', s3Bucket = None, s3Key = None,
      s3ObjectVersion = None\<rparr>
   \<and> fn_code (cdkFunctions (runDeferredTask (UpdateImageFunctionCode 0 ''my-next-app/'')
        (snd (projr (buildImageBehavior sampleToCdkSize sampleSite)))) ! 0) =
     \<lparr>zipFile = None,
      s3Bucket = Some (AssetBucketName ''my-next-app/.open-next/image-optimization-function''),
      s3Key = Some (AssetObjectKey ''my-next-app/.open-next/image-optimization-function''),
      s3ObjectVersion = None\<rparr>"
proof -
  have created: "createImageOptimizationFunction sampleToCdkSize sampleSite =
      Inr (0, snd (projr (createImageOptimizationFunction sampleToCdkSize sampleSite)))"
    by (simp add: createImageOptimizationFunction_def imageMemorySize_def Let_def sampleSite_def)
  have later: "0 < length (cdkFunctions (snd (projr (buildImageBehavior sampleToCdkSize sampleSite))))"
    and url: "fn_urlAuthType (cdkFunctions (snd (projr (buildImageBehavior sampleToCdkSize sampleSite))) ! 0)
       = Some NONE"
    and before: "fn_code (cdkFunctions (snd (projr (buildImageBehavior sampleToCdkSize sampleSite))) ! 0) =
     \<lparr>zipFile = Some ''export function handler() {}'', s3Bucket = None, s3Key = None,
      s3ObjectVersion = None\<rparr>"
    by (simp_all add: buildImageBehavior_def createImageOptimizationFunction_def
          imageMemorySize_def addFunctionUrl_def enableIamAuth_def Let_def sampleSite_def
          cfnCodeOf_def placeholderCode_def)
  have bundlePath: "path_join [''my-next-app/'', ''.open-next/image-optimization-function''] =
     ''my-next-app/.open-next/image-optimization-function''"
    by (simp add: path_join_def path_normalize_def)
  have sitePath: "path (props sampleSite) = ''my-next-app/''" by (simp add: sampleSite_def)
  have "fn_code (cdkFunctions (runDeferredTask (UpdateImageFunctionCode 0 ''my-next-app/'')
        (snd (projr (buildImageBehavior sampleToCdkSize sampleSite)))) ! 0) =
     \<lparr>zipFile = None,
      s3Bucket = Some (AssetBucketName ''my-next-app/.open-next/image-optimization-function''),
      s3Key = Some (AssetObjectKey ''my-next-app/.open-next/image-optimization-function''),
      s3ObjectVersion = None\<rparr>"
    using image_function_code_swap [OF created later] unfolding Let_def sitePath bundlePath
    by blast
  with created later url before show ?thesis by blast
qed

section \<open>The server reference at the grant\<close>

text \<open>
  Claim C9, as amended. The server reference at the \<^verbatim>\<open>grantSendMessages\<close> call is never
  null: either the site has no server function, and \<^verbatim>\<open>createRevalidation\<close> returns before
  the call and leaves the site as it was, or the server reference is a server function \<open>f\<close>
  and the one grant made goes to the role of \<open>f\<close>.
\<close>

theorem grant_server_never_null:
  "(revalidationServer s = None \<and> createRevalidation s = s)
   \<or> (\<exists>f. revalidationServer s = Some f
         \<and> sendMessageGrants (createRevalidation s) =
             sendMessageGrants s @ [(length (queues s), Some (role f))])"
proof (cases "revalidationServer s")
  case None
  then show ?thesis by (simp add: createRevalidation_skipped)
next
  case (Some f)
  then show ?thesis by (simp add: createRevalidation_grant)
qed

text \<open>
  Claim C9 as stated fails: no run of \<^verbatim>\<open>createRevalidation\<close> makes a grant whose grantee
  comes from a null server reference.
\<close>

theorem grant_null_server_counterexample:
  "\<not> (\<exists>s q. sendMessageGrants (createRevalidation s) = sendMessageGrants s @ [(q, None)])"
proof
  assume "\<exists>s q. sendMessageGrants (createRevalidation s) = sendMessageGrants s @ [(q, None)]"
  then obtain s q
    where nullGrant: "sendMessageGrants (createRevalidation s) = sendMessageGrants s @ [(q, None)]"
    by blast
  show False
  proof (cases "revalidationServer s")
    case None
    then have "createRevalidation s = s" by (rule createRevalidation_skipped)
    with nullGrant show False by simp
  next
    case (Some f)
    from createRevalidation_grant [OF Some] nullGrant show False by simp
  qed
qed

section \<open>Default memory of the image function\<close>

text \<open>
  Claim C10. When \<^verbatim>\<open>imageOptimization.memorySize\<close> is omitted, the image function is created
  with 1536 MB of memory, which is not the 1024 MB that the doc comment of \<^verbatim>\<open>memorySize\<close>
  gives as the default.
\<close>

theorem default_image_memory:
  assumes "Option.bind (imageOptimization (props s)) memorySize = None"
  shows "imageFunctionMemory toCdkSize s = Inr (Some 1536)
       \<and> imageFunctionMemory toCdkSize s \<noteq> Inr (Some documentedDefaultMemorySize)"
  using assms
  by (simp add: imageFunctionMemory_def createImageOptimizationFunction_def imageMemorySize_def
        documentedDefaultMemorySize_def Let_def)

theorem default_image_memory_witness:
  "imageFunctionMemory sampleToCdkSize sampleSite = Inr (Some 1536)
   \<and> imageFunctionMemory sampleToCdkSize sampleSite \<noteq> Inr (Some 1024)"
  using default_image_memory [where s = sampleSite and toCdkSize = sampleToCdkSize]
  by (simp add: sampleSite_def documentedDefaultMemorySize_def)

end
